theory Spec2Isabelle
  imports Main
begin

section \<open>Data model\<close>

text \<open>
  The repository is a TypeScript service: an Express server (\<^verbatim>\<open>src/unnamed/part_001\<close>)
  that keeps a map of active MCP connections, and two variants of the class
  \<^verbatim>\<open>MCPClient\<close>: the streaming one (\<^verbatim>\<open>src/mcp/src/client.ts\<close>) and the one that
  answers with a completed text (\<^verbatim>\<open>src/unnamed/part_002\<close>).

  JSON values that the code only passes on (tool arguments, tool results, input schemas)
  are represented by their serialised text, so \<^verbatim>\<open>JSON.stringify(x)\<close> is \<open>x\<close> itself.
  Strings are byte strings.
\<close>

type_synonym json = string

text \<open>\<^verbatim>\<open>ToolCallPart\<close> and \<^verbatim>\<open>ToolResultPart\<close> of the \<^verbatim>\<open>ai\<close> package. Both have the
  fields \<^verbatim>\<open>toolCallId\<close> and \<^verbatim>\<open>toolName\<close>; those of the result carry the prefix
  \<open>res_\<close> here.\<close>

record tool_call =
  toolCallId :: string
  toolName :: string
  args :: json

record tool_result =
  res_toolCallId :: string
  res_toolName :: string
  result :: json
  isError :: bool

text \<open>\<^verbatim>\<open>CoreMessage\<close>: a role and a content, the content a string or an array of parts.\<close>

datatype role = RoleSystem | RoleUser | RoleAssistant | RoleTool

datatype content_part =
    TextPart string
  | ReasoningPart string
  | ToolCallPart tool_call
  | ToolResultPart tool_result
  | OtherPart json

datatype content = Str string | Parts "content_part list"

record message =
  role :: role
  content :: content

text \<open>The tool set handed to the model: a JavaScript object from tool names to
  descriptors, kept as an association list in insertion order.\<close>

record tool =
  tool_description :: "string option"
  parameters :: json

type_synonym tool_set = "(string \<times> tool) list"

text \<open>What \<^verbatim>\<open>client.listTools()\<close> and \<^verbatim>\<open>client.callTool()\<close> of the MCP SDK answer. Of
  the answer of \<^verbatim>\<open>callTool\<close> the code reads the field \<^verbatim>\<open>content\<close> only.\<close>

record remote_tool =
  name :: string
  description :: "string option"
  inputSchema :: json

record tool_response =
  response_content :: json

text \<open>
  \<^verbatim>\<open>asyncTryCatch\<close> (\<^verbatim>\<open>./utils\<close>) is not among the sources. Its callers destructure
  \<^verbatim>\<open>{ data, error }\<close> from what it resolves to, so that pair is the value the runtime
  hands back: \<open>error = Some e\<close> is a truthy error whose string conversion
  \<^verbatim>\<open>`${error}`\<close> is \<open>e\<close>; \<open>data = None\<close> is a null or undefined \<^verbatim>\<open>data\<close>.
\<close>

record 'a try_result =
  data :: "'a option"
  error :: "string option"

definition truthy :: "'a option \<Rightarrow> bool" where
  "truthy x = (case x of None \<Rightarrow> False | Some _ \<Rightarrow> True)"

definition error_text :: "string option \<Rightarrow> string" where
  "error_text e = (case e of None \<Rightarrow> ''null'' | Some t \<Rightarrow> t)"

text \<open>\<^verbatim>\<open>MCPServerConfig\<close> (\<^verbatim>\<open>./types\<close>, not among the sources), by the fields the code
  reads: \<^verbatim>\<open>displayName\<close>, \<^verbatim>\<open>command\<close>, \<^verbatim>\<open>args\<close>, \<^verbatim>\<open>cwd\<close>, \<^verbatim>\<open>env\<close>.\<close>

record server_config =
  displayName :: string
  command :: string
  cmd_args :: "string list"
  cwd :: "string option"
  env :: "(string \<times> string) list option"

text \<open>The options \<^verbatim>\<open>start\<close> passes to \<^verbatim>\<open>new StdioClientTransport\<close>.\<close>

record stdio_transport =
  t_command :: string
  t_args :: "string list"
  t_cwd :: "string option"
  t_env :: "(string \<times> string) list"

text \<open>The events of \<^verbatim>\<open>fullStream\<close>: the loop's \<^verbatim>\<open>switch\<close> reads \<^verbatim>\<open>text-delta\<close> and
  \<^verbatim>\<open>tool-call\<close> and ignores every other kind.\<close>

datatype stream_part =
    TextDelta string
  | ToolCallEvent tool_call
  | OtherEvent

text \<open>What \<^verbatim>\<open>streamText\<close> does for the caller: the call itself is rejected, or it
  delivers parts and then ends, normally or by throwing during the iteration.\<close>

datatype stream_result =
    Rejects string
  | Streams "stream_part list" "string option"

text \<open>\<^verbatim>\<open>GenerateTextResult\<close>, by the fields the completed variant reads:
  \<^verbatim>\<open>response.messages\<close> and \<^verbatim>\<open>text\<close>.\<close>

record generate_result =
  response_messages :: "message list"
  text_of :: string

subsection \<open>The outside world\<close>

text \<open>
  Every external operation takes the state of the world \<open>'w\<close> and returns the next one,
  so a tool or a model may answer differently each time. \<open>ext_call\<close> names the
  operations; the list \<open>calls\<close> of an \<open>io\<close> records them in the order issued.
\<close>

datatype ext_call =
    Connect stdio_transport
  | ListTools
  | CallTool string json
  | Close
  | StreamText "message list" "tool_set option"
  | GenerateText "message list" tool_set

record 'w io =
  world :: 'w
  calls :: "ext_call list"

text \<open>A \<^verbatim>\<open>LanguageModel\<close>, by what \<^verbatim>\<open>streamText\<close> and \<^verbatim>\<open>generateText\<close> yield for it.\<close>

record 'w language_model =
  doStream :: "'w \<Rightarrow> message list \<Rightarrow> tool_set option \<Rightarrow> stream_result \<times> 'w"
  doGenerate :: "'w \<Rightarrow> message list \<Rightarrow> tool_set \<Rightarrow> generate_result try_result \<times> 'w"

text \<open>The MCP SDK client and its transport, the process environment and the clock.\<close>

record 'w runtime =
  connect :: "'w \<Rightarrow> stdio_transport \<Rightarrow> string option \<times> 'w"
  listTools :: "'w \<Rightarrow> remote_tool list try_result \<times> 'w"
  callTool :: "'w \<Rightarrow> string \<Rightarrow> json \<Rightarrow> tool_response try_result \<times> 'w"
  close :: "'w \<Rightarrow> string option \<times> 'w"
  processEnv :: "(string \<times> string) list"
  projectRoot :: string
  now :: "'w \<Rightarrow> nat"

definition streamText ::
  "'w language_model \<Rightarrow> 'w io \<Rightarrow> message list \<Rightarrow> tool_set option \<Rightarrow> stream_result \<times> 'w io" where
  "streamText model io messages tls =
     (let (r, w) = doStream model (world io) messages tls
      in (r, \<lparr>world = w, calls = calls io @ [StreamText messages tls]\<rparr>))"

definition generateText ::
  "'w language_model \<Rightarrow> 'w io \<Rightarrow> message list \<Rightarrow> tool_set \<Rightarrow> generate_result try_result \<times> 'w io" where
  "generateText model io messages tls =
     (let (r, w) = doGenerate model (world io) messages tls
      in (r, \<lparr>world = w, calls = calls io @ [GenerateText messages tls]\<rparr>))"

definition client_connect :: "'w runtime \<Rightarrow> 'w io \<Rightarrow> stdio_transport \<Rightarrow> string option \<times> 'w io" where
  "client_connect rt io tr =
     (let (r, w) = connect rt (world io) tr
      in (r, \<lparr>world = w, calls = calls io @ [Connect tr]\<rparr>))"

definition client_listTools :: "'w runtime \<Rightarrow> 'w io \<Rightarrow> remote_tool list try_result \<times> 'w io" where
  "client_listTools rt io =
     (let (r, w) = listTools rt (world io)
      in (r, \<lparr>world = w, calls = calls io @ [ListTools]\<rparr>))"

definition client_callTool ::
  "'w runtime \<Rightarrow> 'w io \<Rightarrow> string \<Rightarrow> json \<Rightarrow> tool_response try_result \<times> 'w io" where
  "client_callTool rt io nm arguments =
     (let (r, w) = callTool rt (world io) nm arguments
      in (r, \<lparr>world = w, calls = calls io @ [CallTool nm arguments]\<rparr>))"

definition client_close :: "'w runtime \<Rightarrow> 'w io \<Rightarrow> string option \<times> 'w io" where
  "client_close rt io =
     (let (r, w) = close rt (world io)
      in (r, \<lparr>world = w, calls = calls io @ [Close]\<rparr>))"

subsection \<open>JavaScript objects, maps and strings\<close>

text \<open>A \<^verbatim>\<open>Map\<close> (and an object used as a dictionary) is an association list in
  insertion order with one entry per key: \<^verbatim>\<open>set\<close> replaces the value of a present key
  in place and appends an absent one.\<close>

definition map_get :: "('k \<times> 'v) list \<Rightarrow> 'k \<Rightarrow> 'v option" where
  "map_get m k = map_of m k"

definition map_has :: "('k \<times> 'v) list \<Rightarrow> 'k \<Rightarrow> bool" where
  "map_has m k = truthy (map_of m k)"

fun map_set :: "('k \<times> 'v) list \<Rightarrow> 'k \<Rightarrow> 'v \<Rightarrow> ('k \<times> 'v) list" where
  "map_set [] k v = [(k, v)]"
| "map_set (p # ps) k v = (if fst p = k then (k, v) # ps else p # map_set ps k v)"

definition map_delete :: "('k \<times> 'v) list \<Rightarrow> 'k \<Rightarrow> ('k \<times> 'v) list" where
  "map_delete m k = filter (\<lambda>p. fst p \<noteq> k) m"

definition map_size :: "('k \<times> 'v) list \<Rightarrow> nat" where
  "map_size m = length m"

text \<open>\<^verbatim>\<open>String.prototype.trim\<close> on byte strings: the ASCII white space (tab, line feed,
  vertical tab, form feed, carriage return, space). The white space of ECMAScript beyond
  ASCII is several bytes long and is not removed by this \<open>trim\<close>.\<close>

definition is_white_space :: "char \<Rightarrow> bool" where
  "is_white_space c =
     (c \<in> set [CHR 0x09, CHR 0x0A, CHR 0x0B, CHR 0x0C, CHR 0x0D, CHR 0x20])"

definition trim :: "string \<Rightarrow> string" where
  "trim s = rev (dropWhile is_white_space (rev (dropWhile is_white_space s)))"

fun join :: "string \<Rightarrow> string list \<Rightarrow> string" where
  "join sep [] = []"
| "join sep [x] = x"
| "join sep (x # y # ys) = x @ sep @ join sep (y # ys)"

section \<open>MCPClient\<close>

text \<open>The fields of the class (the same in both variants). \<^verbatim>\<open>new Client({name, version})\<close>
  is the pair of its two strings.\<close>

datatype sdk_client = Client string string

record mcp_client =
  client :: "sdk_client option"
  transport :: "stdio_transport option"
  mcpServerConfig :: "server_config option"
  tools :: "tool_set option"

definition new_MCPClient :: "server_config \<Rightarrow> mcp_client" where
  "new_MCPClient serverConfig =
     \<lparr>client = None, transport = None, mcpServerConfig = Some serverConfig, tools = None\<rparr>"

text \<open>\<^verbatim>\<open>{...parentEnv, ...configEnv, PATH: configEnv.PATH || parentEnv.PATH || ""}\<close>.\<close>

definition or_else :: "string option \<Rightarrow> string \<Rightarrow> string" where
  "or_else x d = (case x of None \<Rightarrow> d | Some v \<Rightarrow> (if v = [] then d else v))"

definition merge_env ::
  "(string \<times> string) list \<Rightarrow> (string \<times> string) list \<Rightarrow> (string \<times> string) list" where
  "merge_env parentEnv configEnv =
     map_set (foldl (\<lambda>acc p. map_set acc (fst p) (snd p)) parentEnv configEnv) ''PATH''
       (or_else (map_get configEnv ''PATH'') (or_else (map_get parentEnv ''PATH'') []))"

text \<open>The \<^verbatim>\<open>reduce\<close> of \<^verbatim>\<open>start\<close> that builds the tool set.\<close>

definition to_tool_set :: "remote_tool list \<Rightarrow> tool_set" where
  "to_tool_set ts =
     foldl (\<lambda>acc t. map_set acc (name t)
              \<lparr>tool_description = description t, parameters = inputSchema t\<rparr>) [] ts"

text \<open>
  \<^verbatim>\<open>start\<close> (\<^verbatim>\<open>client.ts\<close>, lines 35 to 85). The first component of the result is the
  error the method throws, if any; the second is the object afterwards.
\<close>

definition start :: "'w runtime \<Rightarrow> 'w io \<Rightarrow> mcp_client \<Rightarrow> string option \<times> mcp_client \<times> 'w io" where
  "start rt io this =
     (case mcpServerConfig this of
        None \<Rightarrow> (None, this, io)
      | Some cfg \<Rightarrow>
          if truthy (client this) then (None, this, io)
          else
            (let configEnv = (case env cfg of None \<Rightarrow> [] | Some e \<Rightarrow> e);
                 tr = \<lparr>t_command = command cfg, t_args = cmd_args cfg, t_cwd = cwd cfg,
                       t_env = merge_env (processEnv rt) configEnv\<rparr>;
                 this1 = this\<lparr>client := Some (Client ''mcp-client'' ''1.0.0''),
                              transport := Some tr\<rparr>;
                 (connectError, io1) = client_connect rt io tr
             in case connectError of
                  Some e \<Rightarrow> (Some e, this1\<lparr>client := None, transport := None\<rparr>, io1)
                | None \<Rightarrow>
                    (let (allTools, io2) = client_listTools rt io1
                     in if truthy (error allTools) then (None, this1\<lparr>tools := Some []\<rparr>, io2)
                        else case data allTools of
                               None \<Rightarrow> (None, this1\<lparr>tools := Some []\<rparr>, io2)
                             | Some ts \<Rightarrow> (None, this1\<lparr>tools := Some (to_tool_set ts)\<rparr>, io2))))"

text \<open>\<^verbatim>\<open>cleanup\<close> (lines 223 to 230): when \<^verbatim>\<open>close\<close> throws, the two assignments
  after it are skipped.\<close>

definition cleanup :: "'w runtime \<Rightarrow> 'w io \<Rightarrow> mcp_client \<Rightarrow> string option \<times> mcp_client \<times> 'w io" where
  "cleanup rt io this =
     (if truthy (client this) then
        (let (closeError, io1) = client_close rt io
         in case closeError of
              Some e \<Rightarrow> (Some e, this, io1)
            | None \<Rightarrow> (None, this\<lparr>client := None, transport := None\<rparr>, io1))
      else (None, this, io))"

subsection \<open>The streaming chat loop (\<^verbatim>\<open>client.ts\<close>)\<close>

text \<open>A \<^verbatim>\<open>ReadableStream<string>\<close> by what its reader sees: the chunks enqueued, and how
  it ends.\<close>

datatype stream_end = StreamClosed | StreamErrored string

record readable_stream =
  chunks :: "string list"
  ending :: stream_end

text \<open>The variables that the \<^verbatim>\<open>for await\<close> over \<^verbatim>\<open>fullStream\<close> updates (lines 112 to
  138); \<open>forwarded\<close> holds what it passes to \<^verbatim>\<open>controller.enqueue\<close>.\<close>

record turn_acc =
  forwarded :: "string list"
  capturedText :: string
  toolCallsToExecute :: "tool_call list"
  currentTurnHadToolCall :: bool

definition announce :: "tool_call \<Rightarrow> string" where
  "announce part =
     ''**Calling Tool: '' @ toolName part @ ''('' @ args part @ '')**'' @ [CHR 0x0A, CHR 0x0A]"

fun on_part :: "turn_acc \<Rightarrow> stream_part \<Rightarrow> turn_acc" where
  "on_part a (TextDelta textDelta) =
     a\<lparr>forwarded := forwarded a @ [textDelta], capturedText := capturedText a @ textDelta\<rparr>"
| "on_part a (ToolCallEvent part) =
     a\<lparr>currentTurnHadToolCall := True,
       forwarded := forwarded a @ [announce part],
       toolCallsToExecute := toolCallsToExecute a @ [part]\<rparr>"
| "on_part a OtherEvent = a"

definition consume_stream :: "stream_part list \<Rightarrow> turn_acc" where
  "consume_stream parts =
     foldl on_part
       \<lparr>forwarded = [], capturedText = [], toolCallsToExecute = [],
        currentTurnHadToolCall = False\<rparr> parts"

text \<open>The test \<^verbatim>\<open>error || !data\<close> on what \<^verbatim>\<open>asyncTryCatch\<close> resolved to: the call
  has failed.\<close>

definition try_failed :: "'a try_result \<Rightarrow> bool" where
  "try_failed r = (truthy (error r) \<or> \<not> truthy (data r))"

text \<open>The tool execution gateway: one pass of the \<^verbatim>\<open>for\<close> over
  \<^verbatim>\<open>toolCallsToExecute\<close> (lines 167 to 190).\<close>

definition execute_tool :: "'w runtime \<Rightarrow> 'w io \<Rightarrow> tool_call \<Rightarrow> tool_result \<times> 'w io" where
  "execute_tool rt io toolCall =
     (let (r, io1) = client_callTool rt io (toolName toolCall) (args toolCall)
      in (case (if try_failed r then None else data r) of
            None \<Rightarrow>
              \<lparr>res_toolCallId = toolCallId toolCall, res_toolName = toolName toolCall,
               result = ''Error: '' @ error_text (error r), isError = True\<rparr>
          | Some d \<Rightarrow>
              \<lparr>res_toolCallId = toolCallId toolCall, res_toolName = toolName toolCall,
               result = response_content d, isError = False\<rparr>,
          io1))"

fun execute_tools :: "'w runtime \<Rightarrow> 'w io \<Rightarrow> tool_call list \<Rightarrow> tool_result list \<times> 'w io" where
  "execute_tools rt io [] = ([], io)"
| "execute_tools rt io (toolCall # rest) =
     (let (r, io1) = execute_tool rt io toolCall;
          (rs, io2) = execute_tools rt io1 rest
      in (r # rs, io2))"

text \<open>
  The state of the \<^verbatim>\<open>while (true)\<close> of \<^verbatim>\<open>chat\<close>: the transcript, the round counter,
  the chunks enqueued so far, the rounds in which \<^verbatim>\<open>console.warn\<close> of line 148 was
  reached, and whether the loop is still running, has left by \<^verbatim>\<open>break\<close> or has
  left through the \<^verbatim>\<open>catch\<close>.
\<close>

datatype loop_status = Looping | Finished | Failed

record 'w loop_state =
  currentMessages :: "message list"
  loopCounter :: nat
  enqueued :: "string list"
  warned :: "nat list"
  status :: loop_status
  lio :: "'w io"

definition assistant_turn :: "turn_acc \<Rightarrow> content_part list" where
  "assistant_turn a =
     (if trim (capturedText a) = [] then [] else [TextPart (trim (capturedText a))])
     @ map ToolCallPart (toolCallsToExecute a)"

definition stream_error :: "'w loop_state \<Rightarrow> 'w io \<Rightarrow> string list \<Rightarrow> string \<Rightarrow> 'w loop_state" where
  "stream_error s io1 sent err =
     s\<lparr>loopCounter := loopCounter s + 1,
       enqueued := enqueued s @ sent @ [[CHR 0x0A] @ ''[STREAM ERROR]: '' @ err],
       status := Failed, lio := io1\<rparr>"

text \<open>One pass through the body of the loop (lines 109 to 199).\<close>

definition loop_body ::
  "'w runtime \<Rightarrow> 'w language_model \<Rightarrow> tool_set \<Rightarrow> 'w loop_state \<Rightarrow> 'w loop_state" where
  "loop_body rt model tls s =
     (let (currentResult, io1) = streamText model (lio s) (currentMessages s) (Some tls)
      in case currentResult of
           Rejects err \<Rightarrow> stream_error s io1 [] err
         | Streams parts thrown \<Rightarrow>
             (let a = consume_stream parts
              in case thrown of
                   Some err \<Rightarrow> stream_error s io1 (forwarded a) err
                 | None \<Rightarrow>
                     (let assistantTurnContent = assistant_turn a;
                          s1 = s\<lparr>loopCounter := loopCounter s + 1,
                                 enqueued := enqueued s @ forwarded a,
                                 warned := (if assistantTurnContent = []
                                            then warned s @ [loopCounter s + 1] else warned s),
                                 currentMessages := currentMessages s @
                                   [\<lparr>role = RoleAssistant, content = Parts assistantTurnContent\<rparr>]\<rparr>
                      in if currentTurnHadToolCall a then
                           (let (toolResults, io2) = execute_tools rt io1 (toolCallsToExecute a)
                            in s1\<lparr>currentMessages := currentMessages s1 @
                                     [\<lparr>role = RoleTool,
                                       content = Parts (map ToolResultPart toolResults)\<rparr>],
                                   lio := io2\<rparr>)
                         else s1\<lparr>status := Finished, lio := io1\<rparr>)))"

text \<open>The state after at most \<open>n\<close> passes: the loop has no bound of its own, so the
  number of passes is a parameter, and a state that is still \<open>Looping\<close> has not
  returned.\<close>

fun run_rounds ::
  "nat \<Rightarrow> 'w runtime \<Rightarrow> 'w language_model \<Rightarrow> tool_set \<Rightarrow> 'w loop_state \<Rightarrow> 'w loop_state" where
  "run_rounds 0 rt model tls s = s"
| "run_rounds (Suc n) rt model tls s =
     (if status s = Looping then run_rounds n rt model tls (loop_body rt model tls s) else s)"

definition init_loop :: "message list \<Rightarrow> 'w io \<Rightarrow> 'w loop_state" where
  "init_loop messages io =
     \<lparr>currentMessages = messages, loopCounter = 0, enqueued = [], warned = [],
      status = Looping, lio = io\<rparr>"

definition while_true ::
  "nat \<Rightarrow> 'w runtime \<Rightarrow> 'w language_model \<Rightarrow> tool_set \<Rightarrow> 'w loop_state \<Rightarrow> 'w loop_state option" where
  "while_true fuel rt model tls s =
     (let s' = run_rounds fuel rt model tls s
      in if status s' = Looping then None else Some s')"

text \<open>
  \<^verbatim>\<open>MCPClient.chat\<close> of \<^verbatim>\<open>client.ts\<close> (lines 88 to 208). The result is the stream as
  its reader sees it once the loop has left, the object afterwards and the world; it is
  \<open>None\<close> when the loop has not left within \<open>fuel\<close> passes. When the client is not
  connected, \<^verbatim>\<open>start\<close> of the stream calls \<^verbatim>\<open>controller.error\<close>; the
  \<^verbatim>\<open>controller.close()\<close> after it finds the stream errored already.
\<close>

definition chat_stream ::
  "nat \<Rightarrow> 'w runtime \<Rightarrow> 'w io \<Rightarrow> mcp_client \<Rightarrow> 'w language_model \<Rightarrow> message list
   \<Rightarrow> (readable_stream \<times> mcp_client \<times> 'w io) option" where
  "chat_stream fuel rt io this model messages =
     (if truthy (client this) then
        (case while_true fuel rt model (case tools this of None \<Rightarrow> [] | Some t \<Rightarrow> t)
                (init_loop messages io) of
           None \<Rightarrow> None
         | Some s \<Rightarrow> Some (\<lparr>chunks = enqueued s, ending = StreamClosed\<rparr>, this, lio s))
      else
        Some (\<lparr>chunks = [], ending = StreamErrored ''Error: MCP Client not connected''\<rparr>,
              this, io))"



subsection \<open>The completed-text chat (\<^verbatim>\<open>src/unnamed/part_002\<close>)\<close>

definition generateModelResponse ::
  "'w language_model \<Rightarrow> 'w io \<Rightarrow> message list \<Rightarrow> tool_set option
   \<Rightarrow> generate_result option \<times> 'w io" where
  "generateModelResponse model io messages tls =
     (let (r, io1) = generateText model io messages (case tls of None \<Rightarrow> [] | Some t \<Rightarrow> t)
      in (if try_failed r then None else data r, io1))"

record 'w walk_state =
  finalText :: "string list"
  toolResults :: "tool_response list"
  wio :: "'w io"

text \<open>The body of the inner \<^verbatim>\<open>for\<close> (lines 106 to 146) for one content item.\<close>

fun on_content ::
  "'w runtime \<Rightarrow> 'w language_model \<Rightarrow> message list \<Rightarrow> 'w walk_state \<Rightarrow> content_part
   \<Rightarrow> 'w walk_state" where
  "on_content rt model messages w (TextPart t) = w\<lparr>finalText := finalText w @ [t]\<rparr>"
| "on_content rt model messages w (ReasoningPart t) = w\<lparr>finalText := finalText w @ [t]\<rparr>"
| "on_content rt model messages w (ToolCallPart c) =
     (let (r, io1) = client_callTool rt (wio w) (toolName c) (args c)
      in case (if try_failed r then None else data r) of
           None \<Rightarrow>
             w\<lparr>finalText := finalText w @
                  [''Error calling tool: '' @ toolName c @ '' '' @ args c @ '': ''
                   @ error_text (error r)],
               wio := io1\<rparr>
         | Some toolCall \<Rightarrow>
             (let updatedMessages =
                    messages @ [\<lparr>role = RoleUser, content = Str (response_content toolCall)\<rparr>];
                  (finalResponse, io2) = generateModelResponse model io1 updatedMessages None;
                  announced = finalText w @
                    [''[Calling tool '' @ toolName c @ '' with args '' @ args c @ '']'']
              in w\<lparr>finalText := (case finalResponse of
                                     None \<Rightarrow> announced
                                   | Some fr \<Rightarrow> announced @ [text_of fr]),
                    toolResults := toolResults w @ [toolCall],
                    wio := io2\<rparr>))"
| "on_content rt model messages w (ToolResultPart r) = w"
| "on_content rt model messages w (OtherPart j) = w"



section \<open>The server (\<^verbatim>\<open>src/unnamed/part_001\<close>)\<close>

text \<open>
  \<^verbatim>\<open>ActiveConnection\<close> (\<^verbatim>\<open>./types\<close>): the handlers read and write \<^verbatim>\<open>serverId\<close>,
  \<^verbatim>\<open>client\<close> (here \<open>mcpClient\<close>, the name \<open>client\<close> being the field of the class)
  and \<^verbatim>\<open>lastActivityTimestamp\<close>. The entry holds the client by value: the only handler
  that changes a registered client (\<^verbatim>\<open>cleanup\<close>) deletes the entry right after.
\<close>

record active_connection =
  serverId :: string
  mcpClient :: mcp_client
  lastActivityTimestamp :: nat

record 'w server =
  activeConnections :: "(string \<times> active_connection) list"
  aiModel :: "'w language_model option"

definition MAX_CONNECTIONS :: nat where
  "MAX_CONNECTIONS = 10"

text \<open>The catalogue of lines 28 to 45. A lookup \<^verbatim>\<open>AVAILABLE_MCP_SERVERS[serverId]\<close> is
  modelled on the object's own keys; the properties every object inherits
  (\<^verbatim>\<open>constructor\<close>, \<^verbatim>\<open>toString\<close>, ...) are not.\<close>

definition AVAILABLE_MCP_SERVERS :: "'w runtime \<Rightarrow> (string \<times> server_config) list" where
  "AVAILABLE_MCP_SERVERS rt =
     [(''github'',
       \<lparr>displayName = ''Github'', command = ''docker-compose'',
        cmd_args = [''run'', ''--rm'', ''github-mcp-server''],
        cwd = Some (projectRoot rt), env = None\<rparr>),
      (''supabase'',
       \<lparr>displayName = ''Supabase'', command = ''npx'',
        cmd_args = [''-y'', ''@supabase/mcp-server-supabase@latest'', ''--access-token'',
                    or_else (map_get (processEnv rt) ''SUPABASE_ACCESS_TOKEN'') []],
        cwd = None, env = None\<rparr>)]"

text \<open>A field of the request body that must be a non-empty string
  (\<^verbatim>\<open>!x || typeof x !== "string"\<close>): \<open>None\<close> is a missing field or one of another
  type.\<close>

definition string_field :: "string option \<Rightarrow> string option" where
  "string_field x = (case x of None \<Rightarrow> None | Some v \<Rightarrow> (if v = [] then None else Some v))"

datatype chat_value = Text string | TextStream readable_stream

datatype body = Message string | ChatResponse chat_value

datatype http_response = Http nat body

text \<open>Lines 139 to 165 of the \<^verbatim>\<open>/connect\<close> handler: the new client is started and
  registered.\<close>

definition establish ::
  "'w runtime \<Rightarrow> 'w server \<Rightarrow> 'w io \<Rightarrow> string \<Rightarrow> string \<Rightarrow> server_config
   \<Rightarrow> http_response \<times> 'w server \<times> 'w io" where
  "establish rt srv io sessionId sid serverConfig =
     (let (thrown, started, io1) = start rt io (new_MCPClient serverConfig)
      in case thrown of
           None \<Rightarrow>
             (Http 200 (Message ''Connection successful''),
              srv\<lparr>activeConnections := map_set (activeConnections srv) sessionId
                     \<lparr>serverId = sid, mcpClient = started,
                      lastActivityTimestamp = now rt (world io1)\<rparr>\<rparr>,
              io1)
         | Some err \<Rightarrow>
             (Http 500 (Message ''Failed to establish connection''),
              srv\<lparr>activeConnections := map_delete (activeConnections srv) sessionId\<rparr>,
              io1))"

text \<open>\<^verbatim>\<open>app.post("/connect", ...)\<close>, lines 76 to 166. The two arguments are the fields
  \<^verbatim>\<open>sessionId\<close> and \<^verbatim>\<open>serverId\<close> of the request body.\<close>

definition connect_handler ::
  "'w runtime \<Rightarrow> 'w server \<Rightarrow> 'w io \<Rightarrow> string option \<Rightarrow> string option
   \<Rightarrow> http_response \<times> 'w server \<times> 'w io" where
  "connect_handler rt srv io sessionId_field serverId_field =
     (case string_field sessionId_field of
        None \<Rightarrow> (Http 400 (Message ''Missing or invalid sessionId''), srv, io)
      | Some sessionId \<Rightarrow>
     (case (case string_field serverId_field of
              None \<Rightarrow> None
            | Some sid \<Rightarrow> map_option (Pair sid) (map_get (AVAILABLE_MCP_SERVERS rt) sid)) of
        None \<Rightarrow>
          (Http 400 (Message (''Missing or invalid serverId. Available: ''
                              @ join '', '' (map fst (AVAILABLE_MCP_SERVERS rt)))), srv, io)
      | Some (sid, serverConfig) \<Rightarrow>
          if map_has (activeConnections srv) sessionId then
            (Http 200 (Message ''Already connected''), srv, io)
          else if MAX_CONNECTIONS \<le> map_size (activeConnections srv) then
            (Http 503 (Message ''Service busy, connection limit reached''), srv, io)
          else
            (case aiModel srv of
               None \<Rightarrow> (Http 500 (Message ''AI Service not configured on backend.''), srv, io)
             | Some model \<Rightarrow>
                 (case map_get (activeConnections srv) sessionId of
                    None \<Rightarrow> establish rt srv io sessionId sid serverConfig
                  | Some existingConnection \<Rightarrow>
                      if serverId existingConnection = sid then
                        (Http 200 (Message (''Already connected to '' @ displayName serverConfig)),
                         srv, io)
                      else
                        (let (thrown, cleaned, io1) = cleanup rt io (mcpClient existingConnection)
                         in establish rt
                              (srv\<lparr>activeConnections :=
                                      map_delete (activeConnections srv) sessionId\<rparr>)
                              io1 sessionId sid serverConfig)))))"

text \<open>\<^verbatim>\<open>app.post("/disconnect", ...)\<close>, lines 169 to 200: the \<^verbatim>\<open>finally\<close> deletes the
  entry on both ways out of the \<^verbatim>\<open>try\<close>.\<close>

definition disconnect_handler ::
  "'w runtime \<Rightarrow> 'w server \<Rightarrow> 'w io \<Rightarrow> string option \<Rightarrow> http_response \<times> 'w server \<times> 'w io" where
  "disconnect_handler rt srv io sessionId_field =
     (case string_field sessionId_field of
        None \<Rightarrow> (Http 400 (Message ''Missing or invalid sessionId''), srv, io)
      | Some sessionId \<Rightarrow>
          (case map_get (activeConnections srv) sessionId of
             None \<Rightarrow>
               (Http 200 (Message ''Session not found or already disconnected''), srv, io)
           | Some connectionData \<Rightarrow>
               (let (thrown, cleaned, io1) = cleanup rt io (mcpClient connectionData);
                    srv1 = srv\<lparr>activeConnections :=
                                 map_delete (activeConnections srv) sessionId\<rparr>
                in case thrown of
                     None \<Rightarrow> (Http 200 (Message ''Disconnection successful''), srv1, io1)
                   | Some err \<Rightarrow>
                       (Http 500 (Message ''Error during disconnection cleanup''), srv1, io1))))"



section \<open>Notions used in the statements\<close>

text \<open>The tool-call requests of a model turn, in the order produced.\<close>

definition requested_calls :: "stream_part list \<Rightarrow> tool_call list" where
  "requested_calls parts =
     concat (map (\<lambda>p. case p of ToolCallEvent c \<Rightarrow> [c] | _ \<Rightarrow> []) parts)"

text \<open>What \<^verbatim>\<open>streamText\<close> answers in a state of the loop, and the world after it.\<close>

definition model_reply :: "'w language_model \<Rightarrow> tool_set \<Rightarrow> 'w loop_state \<Rightarrow> stream_result" where
  "model_reply model tls s = fst (streamText model (lio s) (currentMessages s) (Some tls))"

definition after_reply :: "'w language_model \<Rightarrow> tool_set \<Rightarrow> 'w loop_state \<Rightarrow> 'w io" where
  "after_reply model tls s = snd (streamText model (lio s) (currentMessages s) (Some tls))"

text \<open>A model turn that was delivered whole and holds no tool-call request.\<close>

definition zero_tool_calls :: "stream_result \<Rightarrow> bool" where
  "zero_tool_calls r =
     (case r of
        Rejects e \<Rightarrow> False
      | Streams parts thrown \<Rightarrow> (case thrown of None \<Rightarrow> requested_calls parts = [] | Some e \<Rightarrow> False))"

text \<open>A model turn that was delivered whole and holds at least one tool-call request.\<close>

definition some_tool_calls :: "stream_result \<Rightarrow> bool" where
  "some_tool_calls r =
     (case r of
        Rejects e \<Rightarrow> False
      | Streams parts thrown \<Rightarrow> (case thrown of None \<Rightarrow> requested_calls parts \<noteq> [] | Some e \<Rightarrow> False))"

text \<open>
  The pairing of tool-result turns with assistant turns. \<open>answers a t\<close>: the turn \<open>a\<close>
  is an assistant turn and the content of \<open>t\<close> is a list of tool results, one for each
  tool-call request of \<open>a\<close>, with the call identifiers in the same order.
  \<open>tool_turns_answer\<close>: every turn of role \<^verbatim>\<open>tool\<close> answers the turn right before it.
\<close>

definition call_ids :: "message \<Rightarrow> string list" where
  "call_ids m =
     (case content m of
        Str s \<Rightarrow> []
      | Parts ps \<Rightarrow> concat (map (\<lambda>p. case p of ToolCallPart c \<Rightarrow> [toolCallId c] | _ \<Rightarrow> []) ps))"

definition result_id :: "content_part \<Rightarrow> string option" where
  "result_id p = (case p of ToolResultPart r \<Rightarrow> Some (res_toolCallId r) | _ \<Rightarrow> None)"

definition answers :: "message \<Rightarrow> message \<Rightarrow> bool" where
  "answers a t =
     (role a = RoleAssistant \<and>
      (case content t of
         Str s \<Rightarrow> False
       | Parts rs \<Rightarrow> map result_id rs = map Some (call_ids a)))"

fun tool_turns_answer :: "message option \<Rightarrow> message list \<Rightarrow> bool" where
  "tool_turns_answer prev [] = True"
| "tool_turns_answer prev (m # ms) =
     ((if role m = RoleTool
       then (case prev of None \<Rightarrow> False | Some a \<Rightarrow> answers a m)
       else True)
      \<and> tool_turns_answer (Some m) ms)"

section \<open>Example worlds\<close>

text \<open>
  A runtime over the world \<open>nat\<close>, read as the clock: connecting and listing succeed,
  the tool \<^verbatim>\<open>search\<close> fails and every other tool succeeds, and \<^verbatim>\<open>close\<close> throws
  when \<open>close_throws\<close>.
\<close>

definition example_runtime :: "bool \<Rightarrow> nat runtime" where
  "example_runtime close_throws =
     \<lparr>connect = (\<lambda>w tr. (None, w)),
      listTools = (\<lambda>w. (\<lparr>data = Some [], error = None\<rparr>, w)),
      callTool = (\<lambda>w nm arguments.
         (if nm = ''search'' then \<lparr>data = None, error = Some ''Error: backend down''\<rparr>
          else \<lparr>data = Some \<lparr>response_content = ''ok''\<rparr>, error = None\<rparr>, w)),
      close = (\<lambda>w. (if close_throws then Some ''Error: close failed'' else None, w)),
      processEnv = [], projectRoot = ''/srv'', now = (\<lambda>w. w)\<rparr>"

text \<open>Stub models, each a pure function of the transcript: one that answers
  \<^verbatim>\<open>Hello\<close>, one that answers nothing at all, one that asks for the tools \<^verbatim>\<open>search\<close>
  and \<^verbatim>\<open>fetch\<close> until the transcript ends with a tool turn and then answers
  \<^verbatim>\<open>Done\<close>, and one that asks for a tool in every round.\<close>

definition stub_model :: "(message list \<Rightarrow> stream_result) \<Rightarrow> nat language_model" where
  "stub_model f =
     \<lparr>doStream = (\<lambda>w ms tl. (f ms, w)),
      doGenerate = (\<lambda>w ms tl. (\<lparr>data = None, error = Some ''Error: not used''\<rparr>, w))\<rparr>"

definition hello_stub :: "message list \<Rightarrow> stream_result" where
  "hello_stub ms = Streams [TextDelta ''Hello''] None"

definition blank_stub :: "message list \<Rightarrow> stream_result" where
  "blank_stub ms = Streams [TextDelta '' '', OtherEvent] None"

definition call_c1 :: tool_call where
  "call_c1 = \<lparr>toolCallId = ''c1'', toolName = ''search'', args = ''[7]''\<rparr>"

definition call_c2 :: tool_call where
  "call_c2 = \<lparr>toolCallId = ''c2'', toolName = ''fetch'', args = ''{}''\<rparr>"

definition tools_once_stub :: "message list \<Rightarrow> stream_result" where
  "tools_once_stub ms =
     (if ms = [] then Streams [ToolCallEvent call_c1, ToolCallEvent call_c2] None
      else if role (last ms) = RoleTool then Streams [TextDelta ''Done''] None
      else Streams [ToolCallEvent call_c1, ToolCallEvent call_c2] None)"

definition tools_always_stub :: "message list \<Rightarrow> stream_result" where
  "tools_always_stub ms = Streams [ToolCallEvent call_c1] None"

definition user_says :: "string \<Rightarrow> message" where
  "user_says t = \<lparr>role = RoleUser, content = Str t\<rparr>"

definition io0 :: "nat \<Rightarrow> nat io" where
  "io0 t = \<lparr>world = t, calls = []\<rparr>"

text \<open>A registered session on the backend \<^verbatim>\<open>github\<close>, connected at time 100, and a
  registry that holds ten of them.\<close>

definition github_session :: active_connection where
  "github_session =
     \<lparr>serverId = ''github'',
      mcpClient = \<lparr>client = Some (Client ''mcp-client'' ''1.0.0''), transport = None,
                   mcpServerConfig = None, tools = Some []\<rparr>,
      lastActivityTimestamp = 100\<rparr>"

definition server_with :: "string list \<Rightarrow> nat server" where
  "server_with keys =
     \<lparr>activeConnections = map (\<lambda>k. (k, github_session)) keys,
      aiModel = Some (stub_model hello_stub)\<rparr>"

definition ten_keys :: "string list" where
  "ten_keys = [''s1'', ''s2'', ''s3'', ''s4'', ''s5'', ''s6'', ''s7'', ''s8'', ''s9'', ''s10'']"


section \<open>The session registry\<close>

lemma map_has_get: "map_has m k = (map_get m k \<noteq> None)"
  by (simp add: map_has_def map_get_def truthy_def split: option.splits)

lemma map_get_delete: "map_get (map_delete m k) k = None"
  by (simp add: map_get_def map_delete_def map_of_eq_None_iff image_iff)

lemma cleanup_calls:
  "calls (snd (snd (cleanup rt io this))) =
     (if truthy (client this) then calls io @ [Close] else calls io)"
  by (simp add: cleanup_def client_close_def case_prod_unfold Let_def split: option.splits)

lemmas example_defs =
  example_runtime_def stub_model_def hello_stub_def io0_def github_session_def server_with_def
  ten_keys_def user_says_def

lemmas handler_defs =
  connect_handler_def disconnect_handler_def establish_def start_def cleanup_def
  new_MCPClient_def client_connect_def client_listTools_def client_close_def
  string_field_def AVAILABLE_MCP_SERVERS_def MAX_CONNECTIONS_def
  map_get_def map_has_def map_size_def map_delete_def truthy_def
  merge_env_def or_else_def to_tool_set_def Let_def

subsection \<open>Connecting with a key that is registered\<close>

text \<open>The test of lines 95 to 101 answers every well-formed request for a registered key,
  whatever the backend asked for: nothing after it runs for such a key, so the branch
  of lines 121 to 137 is never entered.\<close>

lemma connect_registered_key:
  assumes "string_field sessionId_field = Some sessionId"
      and "string_field serverId_field = Some sid"
      and "map_get (AVAILABLE_MCP_SERVERS rt) sid = Some serverConfig"
      and "map_has (activeConnections srv) sessionId"
  shows "connect_handler rt srv io sessionId_field serverId_field =
           (Http 200 (Message ''Already connected''), srv, io)"
  using assms by (simp add: connect_handler_def)

text \<open>
  Claim C1 (switching the backend of a registered key). The code does not do what the
  claim says. At the input below the key \<^verbatim>\<open>s1\<close> is registered on \<^verbatim>\<open>github\<close> and the
  request asks for \<^verbatim>\<open>supabase\<close>: the handler answers 200 \<^verbatim>\<open>Already connected\<close>, the
  entry still names \<^verbatim>\<open>github\<close>, and no external operation has been issued: neither
  the \<^verbatim>\<open>close\<close> of the old connection nor the \<^verbatim>\<open>connect\<close> of a new one.
\<close>

theorem connect_other_backend_keeps_old_session:
  "connect_handler (example_runtime False) (server_with [''s1'']) (io0 200)
       (Some ''s1'') (Some ''supabase'')
     = (Http 200 (Message ''Already connected''), server_with [''s1''], io0 200)
   \<and> map_option serverId (map_get (activeConnections (server_with [''s1''])) ''s1'')
       = Some ''github''
   \<and> calls (io0 200) = []"
  by (simp add: handler_defs example_defs)

subsection \<open>Connecting at capacity\<close>



text \<open>A request that is not well-formed is turned away before the capacity test, with
  400 and without any effect either.\<close>

lemma connect_malformed:
  assumes "string_field sessionId_field = None
           \<or> string_field serverId_field = None
           \<or> (\<exists>sid. string_field serverId_field = Some sid
                    \<and> map_get (AVAILABLE_MCP_SERVERS rt) sid = None)"
  shows "\<exists>msg. connect_handler rt srv io sessionId_field serverId_field
                 = (Http 400 (Message msg), srv, io)"
  using assms by (auto simp: connect_handler_def split: option.splits)

subsection \<open>Connecting twice\<close>

text \<open>A second well-formed connect for a key that the first one registered changes
  nothing: one entry, no new connection.\<close>

lemma connect_again_unchanged:
  assumes "string_field sessionId_field = Some sessionId"
      and "string_field serverId_field = Some sid"
      and "map_get (AVAILABLE_MCP_SERVERS rt) sid = Some serverConfig"
      and "connect_handler rt srv io sessionId_field serverId_field = (response, srv', io')"
      and "map_has (activeConnections srv') sessionId"
  shows "connect_handler rt srv' io'' sessionId_field serverId_field
           = (Http 200 (Message ''Already connected''), srv', io'')"
  using assms(1,2,3,5) by (simp add: connect_handler_def)

text \<open>
  Claim C7 (connecting twice with the same key and backend). The code does not do all
  the claim says. At the input below the first connect, at time 100, registers \<^verbatim>\<open>s1\<close>
  on \<^verbatim>\<open>github\<close>; the second, at time 200, is answered 200 \<^verbatim>\<open>Already connected\<close>,
  leaves one entry and connects no second transport, but the entry's
  \<^verbatim>\<open>lastActivityTimestamp\<close> is still 100: the second call has not refreshed it.
\<close>

theorem connect_twice_keeps_timestamp:
  "(let first = connect_handler (example_runtime False) (server_with []) (io0 100)
                  (Some ''s1'') (Some ''github'');
        second = connect_handler (example_runtime False) (fst (snd first))
                   \<lparr>world = 200, calls = calls (snd (snd first))\<rparr>
                   (Some ''s1'') (Some ''github'')
    in fst first = Http 200 (Message ''Connection successful'')
     \<and> fst second = Http 200 (Message ''Already connected'')
     \<and> map (\<lambda>p. (fst p, serverId (snd p), lastActivityTimestamp (snd p)))
           (activeConnections (fst (snd second))) = [(''s1'', ''github'', 100)]
     \<and> length (filter (\<lambda>c. case c of Connect tr \<Rightarrow> True | _ \<Rightarrow> False)
                 (calls (snd (snd second)))) = 1
     \<and> now (example_runtime False) (world (snd (snd second))) = 200)"
  by (simp add: handler_defs example_defs)

subsection \<open>Disconnecting\<close>

text \<open>
  Claim C8: for a well-formed request (a non-empty session key), \<^verbatim>\<open>/disconnect\<close>
  \<^item> answers 200 and changes nothing when the key is not registered;
  \<^item> calls \<^verbatim>\<open>cleanup\<close> on the client of a registered key (which issues \<^verbatim>\<open>close\<close> when
    that client is connected) and deletes the entry, whether \<^verbatim>\<open>cleanup\<close> returns
    (answer 200) or throws (answer 500);
  \<^item> so leaves the key unregistered in every case, and a second disconnect of the same
    key is the no-op of the first item.
\<close>

theorem disconnect_idempotent:
  assumes "string_field sessionId_field = Some sessionId"
  shows "(\<not> map_has (activeConnections srv) sessionId \<longrightarrow>
            disconnect_handler rt srv io sessionId_field
              = (Http 200 (Message ''Session not found or already disconnected''), srv, io))
       \<and> (\<forall>connectionData. map_get (activeConnections srv) sessionId = Some connectionData \<longrightarrow>
            (let (thrown, cleaned, io1) = cleanup rt io (mcpClient connectionData)
             in disconnect_handler rt srv io sessionId_field
                  = (case thrown of
                       None \<Rightarrow> Http 200 (Message ''Disconnection successful'')
                     | Some err \<Rightarrow> Http 500 (Message ''Error during disconnection cleanup''),
                     srv\<lparr>activeConnections := map_delete (activeConnections srv) sessionId\<rparr>,
                     io1)
              \<and> calls io1 = (if truthy (client (mcpClient connectionData))
                             then calls io @ [Close] else calls io)))
       \<and> (let (response, srv', io') = disconnect_handler rt srv io sessionId_field
          in \<not> map_has (activeConnections srv') sessionId
           \<and> (\<forall>io2. disconnect_handler rt srv' io2 sessionId_field
                 = (Http 200 (Message ''Session not found or already disconnected''), srv', io2)))"
proof (intro conjI allI impI)
  assume "\<not> map_has (activeConnections srv) sessionId"
  with assms show "disconnect_handler rt srv io sessionId_field
      = (Http 200 (Message ''Session not found or already disconnected''), srv, io)"
    by (simp add: disconnect_handler_def map_has_get)
next
  fix connectionData
  assume "map_get (activeConnections srv) sessionId = Some connectionData"
  with assms cleanup_calls [of rt io "mcpClient connectionData"]
  show "let (thrown, cleaned, io1) = cleanup rt io (mcpClient connectionData)
        in disconnect_handler rt srv io sessionId_field
             = (case thrown of
                  None \<Rightarrow> Http 200 (Message ''Disconnection successful'')
                | Some err \<Rightarrow> Http 500 (Message ''Error during disconnection cleanup''),
                srv\<lparr>activeConnections := map_delete (activeConnections srv) sessionId\<rparr>,
                io1)
         \<and> calls io1 = (if truthy (client (mcpClient connectionData))
                        then calls io @ [Close] else calls io)"
    by (simp add: disconnect_handler_def case_prod_unfold Let_def split: option.splits)
next
  have gone: "map_get (activeConnections (fst (snd (disconnect_handler rt srv io sessionId_field))))
                sessionId = None"
    using assms
    by (simp add: disconnect_handler_def case_prod_unfold Let_def map_get_delete
        split: option.splits)
  with assms
  show "let (response, srv', io') = disconnect_handler rt srv io sessionId_field
        in \<not> map_has (activeConnections srv') sessionId
         \<and> (\<forall>io2. disconnect_handler rt srv' io2 sessionId_field
               = (Http 200 (Message ''Session not found or already disconnected''), srv', io2))"
    by (simp add: case_prod_unfold map_has_get disconnect_handler_def)
qed

theorem disconnect_idempotent_witness:
  "disconnect_handler (example_runtime True) (server_with [''s1'']) (io0 200) (Some ''s1'')
     = (Http 500 (Message ''Error during disconnection cleanup''), server_with [],
        \<lparr>world = 200, calls = [Close]\<rparr>)
   \<and> disconnect_handler (example_runtime False) (server_with [''s1'']) (io0 200) (Some ''s1'')
     = (Http 200 (Message ''Disconnection successful''), server_with [],
        \<lparr>world = 200, calls = [Close]\<rparr>)
   \<and> disconnect_handler (example_runtime True) (server_with []) (io0 300) (Some ''s1'')
     = (Http 200 (Message ''Session not found or already disconnected''), server_with [],
        io0 300)"
proof -
  have key: "string_field (Some ''s1'') = Some ''s1''"
    by (simp add: string_field_def)
  have registered: "map_get (activeConnections (server_with [''s1''])) ''s1'' = Some github_session"
    by (simp add: example_defs map_get_def)
  have unknown: "\<not> map_has (activeConnections (server_with [])) ''s1''"
    by (simp add: example_defs map_has_def truthy_def)
  have removed: "server_with [''s1'']
      \<lparr>activeConnections := map_delete (activeConnections (server_with [''s1''])) ''s1''\<rparr>
      = server_with []"
    by (simp add: example_defs map_delete_def)
  have throwing: "cleanup (example_runtime True) (io0 200) (mcpClient github_session)
      = (Some ''Error: close failed'', mcpClient github_session, \<lparr>world = 200, calls = [Close]\<rparr>)"
    by (simp add: example_defs cleanup_def client_close_def truthy_def)
  have closing: "cleanup (example_runtime False) (io0 200) (mcpClient github_session)
      = (None, mcpClient github_session\<lparr>client := None, transport := None\<rparr>,
         \<lparr>world = 200, calls = [Close]\<rparr>)"
    by (simp add: example_defs cleanup_def client_close_def truthy_def)
  from disconnect_idempotent [OF key, of "server_with [''s1'']" "example_runtime True" "io0 200"]
    registered throwing removed
  have a: "disconnect_handler (example_runtime True) (server_with [''s1'']) (io0 200) (Some ''s1'')
     = (Http 500 (Message ''Error during disconnection cleanup''), server_with [],
        \<lparr>world = 200, calls = [Close]\<rparr>)"
    by simp
  from disconnect_idempotent [OF key, of "server_with [''s1'']" "example_runtime False" "io0 200"]
    registered closing removed
  have b: "disconnect_handler (example_runtime False) (server_with [''s1'']) (io0 200) (Some ''s1'')
     = (Http 200 (Message ''Disconnection successful''), server_with [],
        \<lparr>world = 200, calls = [Close]\<rparr>)"
    by simp
  from disconnect_idempotent [OF key, of "server_with []" "example_runtime True" "io0 300"] unknown
  have c: "disconnect_handler (example_runtime True) (server_with []) (io0 300) (Some ''s1'')
     = (Http 200 (Message ''Session not found or already disconnected''), server_with [],
        io0 300)"
    by simp
  from a b c show ?thesis by simp
qed

subsection \<open>Chat without a session\<close>



section \<open>MCPClient.chat\<close>

subsection \<open>A client that is not connected\<close>


lemma start_throws_not_connected:
  "start rt io this = (Some e, this', io') \<Longrightarrow> client this' = None"
  by (auto simp: start_def case_prod_unfold Let_def split: option.splits if_splits)

lemma cleanup_returns_not_connected:
  "cleanup rt io this = (None, this', io') \<Longrightarrow> client this' = None"
  by (auto simp: cleanup_def case_prod_unfold Let_def truthy_def split: option.splits if_splits)

lemma cleanup_throws_keeps_client:
  "cleanup rt io this = (Some e, this', io') \<Longrightarrow> this' = this \<and> truthy (client this)"
  by (auto simp: cleanup_def case_prod_unfold Let_def split: option.splits if_splits)



section \<open>The streaming chat loop\<close>

subsection \<open>Reading the model's stream\<close>

lemma foldl_on_part_calls:
  "toolCallsToExecute (foldl on_part a parts) = toolCallsToExecute a @ requested_calls parts"
proof (induction parts arbitrary: a)
  case Nil
  show ?case by (simp add: requested_calls_def)
next
  case (Cons p ps)
  show ?case
    by (cases p) (simp_all add: Cons.IH requested_calls_def)
qed

lemma foldl_on_part_flag:
  "currentTurnHadToolCall (foldl on_part a parts) =
     (currentTurnHadToolCall a \<or> requested_calls parts \<noteq> [])"
proof (induction parts arbitrary: a)
  case Nil
  show ?case by (simp add: requested_calls_def)
next
  case (Cons p ps)
  show ?case
    by (cases p) (simp_all add: Cons.IH requested_calls_def)
qed

lemma consume_calls: "toolCallsToExecute (consume_stream parts) = requested_calls parts"
  by (simp add: consume_stream_def foldl_on_part_calls)

lemma consume_flag:
  "currentTurnHadToolCall (consume_stream parts) = (requested_calls parts \<noteq> [])"
  by (simp add: consume_stream_def foldl_on_part_flag)

subsection \<open>Executing a batch of tool calls\<close>


lemma execute_tool_id:
  "res_toolCallId (fst (execute_tool rt io c)) = toolCallId c"
  "res_toolName (fst (execute_tool rt io c)) = toolName c"
  by (simp_all add: execute_tool_def case_prod_unfold Let_def split: option.splits)


lemma execute_tools_Cons:
  "execute_tools rt io (c # cs) =
     (fst (execute_tool rt io c) # fst (execute_tools rt (snd (execute_tool rt io c)) cs),
      snd (execute_tools rt (snd (execute_tool rt io c)) cs))"
  by (simp add: case_prod_unfold Let_def)



lemma execute_tools_ids:
  "map res_toolCallId (fst (execute_tools rt io cs)) = map toolCallId cs"
  by (induction cs arbitrary: io)
     (simp_all add: execute_tools_Cons execute_tool_id del: execute_tools.simps(2))


subsection \<open>One pass through the loop body, by the model's reply\<close>

lemma loop_body_tools:
  assumes "model_reply model tls s = Streams parts None" and "requested_calls parts \<noteq> []"
  shows "loop_body rt model tls s =
     s\<lparr>loopCounter := loopCounter s + 1,
       enqueued := enqueued s @ forwarded (consume_stream parts),
       currentMessages := currentMessages s @
         [\<lparr>role = RoleAssistant, content = Parts (assistant_turn (consume_stream parts))\<rparr>,
          \<lparr>role = RoleTool, content = Parts (map ToolResultPart
             (fst (execute_tools rt (after_reply model tls s) (requested_calls parts))))\<rparr>],
       lio := snd (execute_tools rt (after_reply model tls s) (requested_calls parts))\<rparr>"
proof -
  have "assistant_turn (consume_stream parts) \<noteq> []"
    using assms(2) by (simp add: assistant_turn_def consume_calls)
  then show ?thesis
    using assms
    by (simp add: loop_body_def model_reply_def after_reply_def case_prod_unfold Let_def
        consume_calls consume_flag)
qed

lemma loop_body_done:
  assumes "model_reply model tls s = Streams parts None" and "requested_calls parts = []"
  shows "loop_body rt model tls s =
     s\<lparr>loopCounter := loopCounter s + 1,
       enqueued := enqueued s @ forwarded (consume_stream parts),
       warned := (if trim (capturedText (consume_stream parts)) = []
                  then warned s @ [loopCounter s + 1] else warned s),
       currentMessages := currentMessages s @
         [\<lparr>role = RoleAssistant, content = Parts (assistant_turn (consume_stream parts))\<rparr>],
       status := Finished,
       lio := after_reply model tls s\<rparr>"
  using assms
  by (simp add: loop_body_def model_reply_def after_reply_def case_prod_unfold Let_def
      consume_calls consume_flag assistant_turn_def)

lemma loop_body_thrown:
  assumes "model_reply model tls s = Streams parts (Some e)"
  shows "loop_body rt model tls s =
           stream_error s (after_reply model tls s) (forwarded (consume_stream parts)) e"
  using assms
  by (simp add: loop_body_def model_reply_def after_reply_def case_prod_unfold Let_def)

lemma loop_body_rejected:
  assumes "model_reply model tls s = Rejects e"
  shows "loop_body rt model tls s = stream_error s (after_reply model tls s) [] e"
  using assms
  by (simp add: loop_body_def model_reply_def after_reply_def case_prod_unfold Let_def)

lemmas loop_defs =
  loop_body_def streamText_def consume_stream_def assistant_turn_def announce_def trim_def
  is_white_space_def execute_tool_def client_callTool_def try_failed_def truthy_def
  error_text_def init_loop_def stream_error_def requested_calls_def model_reply_def
  after_reply_def Let_def

lemmas stub_defs =
  example_runtime_def stub_model_def hello_stub_def blank_stub_def tools_once_stub_def
  tools_always_stub_def call_c1_def call_c2_def user_says_def io0_def

subsection \<open>A tool call that fails\<close>



subsection \<open>Tool-result turns answer the assistant turn before them\<close>

lemma tool_turns_answer_any_prev:
  "tool_turns_answer None ms \<Longrightarrow> tool_turns_answer p ms"
  by (cases ms) (simp_all split: if_splits)

lemma tool_turns_answer_append:
  "tool_turns_answer p xs \<Longrightarrow> tool_turns_answer None ys \<Longrightarrow> tool_turns_answer p (xs @ ys)"
proof (induction xs arbitrary: p)
  case Nil
  then show ?case by (simp add: tool_turns_answer_any_prev)
next
  case (Cons x xs)
  then show ?case by simp
qed

lemma call_ids_assistant_turn:
  "call_ids \<lparr>role = r, content = Parts (assistant_turn a)\<rparr> = map toolCallId (toolCallsToExecute a)"
  by (simp add: call_ids_def assistant_turn_def concat_map_singleton o_def)

lemma result_ids_of_batch:
  "map (result_id \<circ> ToolResultPart) (fst (execute_tools rt io cs)) = map (Some \<circ> toolCallId) cs"
proof -
  have "result_id \<circ> ToolResultPart = Some \<circ> res_toolCallId"
    by (simp add: fun_eq_iff result_id_def)
  moreover have "map (Some \<circ> res_toolCallId) (fst (execute_tools rt io cs))
      = map Some (map res_toolCallId (fst (execute_tools rt io cs)))"
    by simp
  ultimately show ?thesis
    by (simp only: execute_tools_ids map_map)
qed

lemma loop_body_adds:
  "\<exists>added. currentMessages (loop_body rt model tls s) = currentMessages s @ added
          \<and> tool_turns_answer None added"
proof (cases "model_reply model tls s")
  case (Rejects e)
  then show ?thesis
    by (simp add: loop_body_rejected stream_error_def)
next
  case (Streams parts thrown)
  show ?thesis
  proof (cases thrown)
    case (Some e)
    with Streams show ?thesis
      by (simp add: loop_body_thrown stream_error_def)
  next
    case None
    show ?thesis
    proof (cases "requested_calls parts = []")
      case True
      with Streams None show ?thesis
        by (simp add: loop_body_done)
    next
      case False
      with Streams None show ?thesis
        by (simp add: loop_body_tools answers_def call_ids_assistant_turn result_ids_of_batch
            consume_calls)
    qed
  qed
qed

text \<open>
  Claim C4: whatever the number \<open>n\<close> of passes, the transcript is the one the loop began
  with followed by the turns added, and among the turns added every turn of role
  \<^verbatim>\<open>tool\<close> stands right after an assistant turn and holds exactly one tool result per
  tool-call request of that turn, with the call identifiers in the order of the requests
  (\<open>answers\<close>: the lists of identifiers are equal, so the lengths are too). If the
  transcript the caller passed in is paired in this way, so is the whole transcript.
\<close>

theorem tool_results_match_requests:
  "(\<exists>added. currentMessages (run_rounds n rt model tls s) = currentMessages s @ added
           \<and> tool_turns_answer None added)
   \<and> (tool_turns_answer None (currentMessages s)
        \<longrightarrow> tool_turns_answer None (currentMessages (run_rounds n rt model tls s)))"
proof -
  have grows: "\<exists>added. currentMessages (run_rounds n rt model tls s) = currentMessages s @ added
           \<and> tool_turns_answer None added" for s
  proof (induction n arbitrary: s)
    case 0
    show ?case by simp
  next
    case (Suc n)
    show ?case
    proof (cases "status s = Looping")
      case False
      then show ?thesis by simp
    next
      case True
      obtain a1 where a1: "currentMessages (loop_body rt model tls s) = currentMessages s @ a1"
        "tool_turns_answer None a1"
        using loop_body_adds by blast
      obtain a2 where a2: "currentMessages (run_rounds n rt model tls (loop_body rt model tls s))
          = currentMessages (loop_body rt model tls s) @ a2" "tool_turns_answer None a2"
        using Suc.IH by blast
      from a1 a2 True have "currentMessages (run_rounds (Suc n) rt model tls s)
          = currentMessages s @ (a1 @ a2)"
        by simp
      moreover from a1(2) a2(2) have "tool_turns_answer None (a1 @ a2)"
        by (rule tool_turns_answer_append)
      ultimately show ?thesis by blast
    qed
  qed
  then show ?thesis
    by (metis tool_turns_answer_append)
qed

theorem tool_results_match_requests_witness:
  "currentMessages (run_rounds 5 (example_runtime False) (stub_model tools_once_stub) []
                      (init_loop [user_says ''hi''] (io0 200)))
     = [user_says ''hi'',
        \<lparr>role = RoleAssistant, content = Parts [ToolCallPart call_c1, ToolCallPart call_c2]\<rparr>,
        \<lparr>role = RoleTool, content = Parts
           [ToolResultPart \<lparr>res_toolCallId = ''c1'', res_toolName = ''search'',
                            result = ''Error: Error: backend down'', isError = True\<rparr>,
            ToolResultPart \<lparr>res_toolCallId = ''c2'', res_toolName = ''fetch'',
                            result = ''ok'', isError = False\<rparr>]\<rparr>,
        \<lparr>role = RoleAssistant, content = Parts [TextPart ''Done'']\<rparr>]
   \<and> tool_turns_answer None
        (currentMessages (run_rounds 5 (example_runtime False) (stub_model tools_once_stub) []
                      (init_loop [user_says ''hi''] (io0 200))))"
proof -
  have paired: "tool_turns_answer None (currentMessages (init_loop [user_says ''hi''] (io0 200)))"
    by (simp add: init_loop_def user_says_def)
  have run: "currentMessages (run_rounds 5 (example_runtime False) (stub_model tools_once_stub) []
                      (init_loop [user_says ''hi''] (io0 200)))
     = [user_says ''hi'',
        \<lparr>role = RoleAssistant, content = Parts [ToolCallPart call_c1, ToolCallPart call_c2]\<rparr>,
        \<lparr>role = RoleTool, content = Parts
           [ToolResultPart \<lparr>res_toolCallId = ''c1'', res_toolName = ''search'',
                            result = ''Error: Error: backend down'', isError = True\<rparr>,
            ToolResultPart \<lparr>res_toolCallId = ''c2'', res_toolName = ''fetch'',
                            result = ''ok'', isError = False\<rparr>]\<rparr>,
        \<lparr>role = RoleAssistant, content = Parts [TextPart ''Done'']\<rparr>]"
    by (simp add: eval_nat_numeral loop_defs stub_defs)
  from tool_results_match_requests [of 5 "example_runtime False" "stub_model tools_once_stub" "[]"
      "init_loop [user_says ''hi''] (io0 200)"] paired
  have ans: "tool_turns_answer None
        (currentMessages (run_rounds 5 (example_runtime False) (stub_model tools_once_stub) []
                      (init_loop [user_says ''hi''] (io0 200))))"
    by blast
  show ?thesis by (rule conjI) (fact run, fact ans)
qed

subsection \<open>Leaving the loop\<close>

lemma run_rounds_stopped: "status s \<noteq> Looping \<Longrightarrow> run_rounds n rt model tls s = s"
  by (cases n) simp_all

lemma run_rounds_Suc:
  "run_rounds (Suc n) rt model tls s =
     (if status (run_rounds n rt model tls s) = Looping
      then loop_body rt model tls (run_rounds n rt model tls s)
      else run_rounds n rt model tls s)"
proof (induction n arbitrary: s)
  case 0
  show ?case by simp
next
  case (Suc n)
  show ?case
  proof (cases "status s = Looping")
    case True
    with Suc.IH [of "loop_body rt model tls s"] show ?thesis by simp
  next
    case False
    then show ?thesis by simp
  qed
qed

lemma loop_body_status:
  "status (loop_body rt model tls s) =
     (if zero_tool_calls (model_reply model tls s) then Finished
      else if some_tool_calls (model_reply model tls s) then status s
      else Failed)"
proof (cases "model_reply model tls s")
  case (Rejects e)
  then show ?thesis
    by (simp add: loop_body_rejected stream_error_def zero_tool_calls_def some_tool_calls_def)
next
  case (Streams parts thrown)
  show ?thesis
  proof (cases thrown)
    case (Some e)
    with Streams show ?thesis
      by (simp add: loop_body_thrown stream_error_def zero_tool_calls_def some_tool_calls_def)
  next
    case None
    with Streams show ?thesis
      by (cases "requested_calls parts = []")
         (simp_all add: loop_body_done loop_body_tools zero_tool_calls_def some_tool_calls_def)
  qed
qed

lemma loop_body_counter:
  "loopCounter (loop_body rt model tls s) = loopCounter s + 1"
proof (cases "model_reply model tls s")
  case (Rejects e)
  then show ?thesis
    by (simp add: loop_body_rejected stream_error_def)
next
  case (Streams parts thrown)
  show ?thesis
  proof (cases thrown)
    case (Some e)
    with Streams show ?thesis
      by (simp add: loop_body_thrown stream_error_def)
  next
    case None
    with Streams show ?thesis
      by (cases "requested_calls parts = []") (simp_all add: loop_body_done loop_body_tools)
  qed
qed

lemma run_rounds_last_pass:
  assumes "status s = Looping"
      and "status (run_rounds n rt model tls s) \<noteq> Looping"
  shows "\<exists>k<n. status (run_rounds k rt model tls s) = Looping
              \<and> run_rounds n rt model tls s = loop_body rt model tls (run_rounds k rt model tls s)"
  using assms
proof (induction n)
  case 0
  then show ?case by auto
next
  case (Suc n)
  show ?case
  proof (cases "status (run_rounds n rt model tls s) = Looping")
    case True
    then have "run_rounds (Suc n) rt model tls s = loop_body rt model tls (run_rounds n rt model tls s)"
      by (subst run_rounds_Suc) simp
    with True show ?thesis by blast
  next
    case False
    then have same: "run_rounds (Suc n) rt model tls s = run_rounds n rt model tls s"
      by (subst run_rounds_Suc) simp
    from Suc.IH [OF Suc.prems(1) False] obtain k where "k < n"
      "status (run_rounds k rt model tls s) = Looping"
      "run_rounds n rt model tls s = loop_body rt model tls (run_rounds k rt model tls s)"
      by blast
    with same show ?thesis
      by (metis less_Suc_eq)
  qed
qed

lemma pure_model_reply:
  assumes "\<forall>w ms tl. doStream model w ms tl = (stub ms, w)"
  shows "model_reply model tls s = stub (currentMessages s)"
  using assms by (simp add: model_reply_def streamText_def)

lemma never_stops:
  assumes "\<forall>s. some_tool_calls (model_reply model tls s)" and "status s = Looping"
  shows "status (run_rounds n rt model tls s) = Looping
       \<and> loopCounter (run_rounds n rt model tls s) = loopCounter s + n"
proof (induction n)
  case 0
  from assms(2) show ?case by simp
next
  case (Suc n)
  let ?s = "run_rounds n rt model tls s"
  from Suc have here: "status ?s = Looping" and count: "loopCounter ?s = loopCounter s + n"
    by simp_all
  have some: "some_tool_calls (model_reply model tls ?s)"
    using assms(1) by blast
  then have "\<not> zero_tool_calls (model_reply model tls ?s)"
    by (auto simp: zero_tool_calls_def some_tool_calls_def
        split: stream_result.splits option.splits)
  with some here have "status (loop_body rt model tls ?s) = Looping"
    by (simp add: loop_body_status)
  moreover from count have "loopCounter (loop_body rt model tls ?s) = loopCounter s + Suc n"
    by (simp add: loop_body_counter)
  moreover from here have "run_rounds (Suc n) rt model tls s = loop_body rt model tls ?s"
    by (subst run_rounds_Suc) simp
  ultimately show ?case by simp
qed

text \<open>The stream \<^verbatim>\<open>chat\<close> returns for a connected client is the one the loop has
  written when it leaves.\<close>

lemma chat_stream_connected:
  assumes "truthy (client this)"
  shows "chat_stream fuel rt io this model messages =
           map_option (\<lambda>s. (\<lparr>chunks = enqueued s, ending = StreamClosed\<rparr>, this, lio s))
             (while_true fuel rt model (case tools this of None \<Rightarrow> [] | Some t \<Rightarrow> t)
                (init_loop messages io))"
  using assms by (simp add: chat_stream_def split: option.splits)

text \<open>
  Claim C3: let the model be a stub that is a pure function \<open>stub\<close> of the transcript and
  let the loop be started.
  \<^item> If the stub's answer to the transcript reached after \<open>k\<close> passes holds no tool-call
    request, the loop has left after at most \<open>k + 1\<close> passes (\<open>while_true\<close> returns).
  \<^item> If the loop has left by \<^verbatim>\<open>break\<close> (status \<open>Finished\<close>, not through the
    \<^verbatim>\<open>catch\<close>), its last pass was one in which the stub's answer held no tool-call
    request.
  \<^item> There is no bound on the passes: with a stub that asks for a tool in every round the
    loop has not left after \<open>n\<close> passes, for every \<open>n\<close>, and has counted \<open>n\<close> rounds.
\<close>

theorem loop_terminates_only_without_tool_calls:
  assumes pure: "\<forall>w ms tl. doStream model w ms tl = (stub ms, w)"
      and running: "status s0 = Looping"
  shows "(\<forall>k. zero_tool_calls (stub (currentMessages (run_rounds k rt model tls s0)))
             \<longrightarrow> (\<exists>s'. while_true (Suc k) rt model tls s0 = Some s'
                       \<and> loopCounter s' \<le> loopCounter s0 + Suc k))
       \<and> (\<forall>n s'. while_true n rt model tls s0 = Some s' \<and> status s' = Finished
             \<longrightarrow> (\<exists>k<n. status (run_rounds k rt model tls s0) = Looping
                       \<and> zero_tool_calls (stub (currentMessages (run_rounds k rt model tls s0)))
                       \<and> s' = loop_body rt model tls (run_rounds k rt model tls s0)))
       \<and> ((\<forall>ms. some_tool_calls (stub ms))
             \<longrightarrow> (\<forall>n. while_true n rt model tls s0 = None
                      \<and> loopCounter (run_rounds n rt model tls s0) = loopCounter s0 + n))"
proof -
  have live: "\<exists>s'. while_true (Suc k) rt model tls s0 = Some s'
                 \<and> loopCounter s' \<le> loopCounter s0 + Suc k"
    if "zero_tool_calls (stub (currentMessages (run_rounds k rt model tls s0)))" for k
  proof -
    let ?s = "run_rounds k rt model tls s0"
    from that have zero: "zero_tool_calls (model_reply model tls ?s)"
      by (simp add: pure_model_reply [OF pure])
    have stopped: "status (run_rounds (Suc k) rt model tls s0) \<noteq> Looping"
    proof (cases "status ?s = Looping")
      case True
      then have "run_rounds (Suc k) rt model tls s0 = loop_body rt model tls ?s"
        by (subst run_rounds_Suc) simp
      with zero show ?thesis by (simp add: loop_body_status)
    next
      case False
      then have "run_rounds (Suc k) rt model tls s0 = ?s"
        by (subst run_rounds_Suc) simp
      with False show ?thesis by simp
    qed
    have bound: "loopCounter (run_rounds n rt model tls s0) \<le> loopCounter s0 + n" for n
    proof (induction n)
      case 0
      show ?case by simp
    next
      case (Suc n)
      then show ?case
        by (subst run_rounds_Suc) (simp add: loop_body_counter)
    qed
    from stopped bound [of "Suc k"] show ?thesis
      by (simp add: while_true_def Let_def del: run_rounds.simps)
  qed
  have only: "\<exists>k<n. status (run_rounds k rt model tls s0) = Looping
                 \<and> zero_tool_calls (stub (currentMessages (run_rounds k rt model tls s0)))
                 \<and> s' = loop_body rt model tls (run_rounds k rt model tls s0)"
    if "while_true n rt model tls s0 = Some s' \<and> status s' = Finished" for n s'
  proof -
    from that have result: "run_rounds n rt model tls s0 = s'" and fin: "status s' = Finished"
      by (simp_all add: while_true_def Let_def split: if_splits)
    from result fin have "status (run_rounds n rt model tls s0) \<noteq> Looping"
      by simp
    with running obtain k where k: "k < n" "status (run_rounds k rt model tls s0) = Looping"
      "run_rounds n rt model tls s0 = loop_body rt model tls (run_rounds k rt model tls s0)"
      using run_rounds_last_pass [of s0 n rt model tls] by blast
    from k(3) result fin k(2)
    have "zero_tool_calls (model_reply model tls (run_rounds k rt model tls s0))"
      by (simp add: loop_body_status split: if_splits)
    then have "zero_tool_calls (stub (currentMessages (run_rounds k rt model tls s0)))"
      by (simp add: pure_model_reply [OF pure])
    with k result show ?thesis by auto
  qed
  have forever: "while_true n rt model tls s0 = None
                 \<and> loopCounter (run_rounds n rt model tls s0) = loopCounter s0 + n"
    if "\<forall>ms. some_tool_calls (stub ms)" for n
  proof -
    from that have "\<forall>s. some_tool_calls (model_reply model tls s)"
      by (simp add: pure_model_reply [OF pure])
    from never_stops [OF this running, of n rt] show ?thesis
      by (simp add: while_true_def Let_def)
  qed
  from live only forever show ?thesis by blast
qed

theorem loop_terminates_only_without_tool_calls_witness:
  "(\<exists>s'. while_true (Suc 0) (example_runtime False) (stub_model hello_stub) []
             (init_loop [user_says ''hi''] (io0 200)) = Some s'
         \<and> loopCounter s' \<le> Suc 0)
   \<and> while_true 7 (example_runtime False) (stub_model tools_always_stub) []
        (init_loop [user_says ''hi''] (io0 200)) = None
   \<and> loopCounter (run_rounds 7 (example_runtime False) (stub_model tools_always_stub) []
        (init_loop [user_says ''hi''] (io0 200))) = 7"
proof -
  have pure1: "\<forall>w ms tl. doStream (stub_model hello_stub) w ms tl = (hello_stub ms, w)"
    and pure2: "\<forall>w ms tl. doStream (stub_model tools_always_stub) w ms tl
                  = (tools_always_stub ms, w)"
    by (simp_all add: stub_model_def)
  have running: "status (init_loop [user_says ''hi''] (io0 200)) = Looping"
    by (simp add: init_loop_def)
  have zero: "zero_tool_calls (hello_stub ms)" for ms
    by (simp add: hello_stub_def zero_tool_calls_def requested_calls_def)
  have some: "\<forall>ms. some_tool_calls (tools_always_stub ms)"
    by (simp add: tools_always_stub_def some_tool_calls_def requested_calls_def)
  from loop_terminates_only_without_tool_calls
         [OF pure1 running, of "example_runtime False" "[]"] zero
  have a: "\<exists>s'. while_true (Suc 0) (example_runtime False) (stub_model hello_stub) []
             (init_loop [user_says ''hi''] (io0 200)) = Some s'
         \<and> loopCounter s' \<le> loopCounter (init_loop [user_says ''hi''] (io0 200)) + Suc 0"
    by blast
  from loop_terminates_only_without_tool_calls
         [OF pure2 running, of "example_runtime False" "[]"] some
  have c: "while_true 7 (example_runtime False) (stub_model tools_always_stub) []
        (init_loop [user_says ''hi''] (io0 200)) = None
      \<and> loopCounter (run_rounds 7 (example_runtime False) (stub_model tools_always_stub) []
        (init_loop [user_says ''hi''] (io0 200)))
        = loopCounter (init_loop [user_says ''hi''] (io0 200)) + 7"
    by blast
  have start: "loopCounter (init_loop [user_says ''hi''] (io0 200)) = 0"
    by (simp add: init_loop_def)
  from a c show ?thesis
    unfolding start by simp
qed

subsection \<open>A model turn without content\<close>




subsection \<open>A failed tool call in the completed-text chat\<close>

text \<open>In \<^verbatim>\<open>chat\<close> of \<^verbatim>\<open>part_002\<close> a tool call that fails adds its error text to the
  output and nothing else; the \<^verbatim>\<open>continue\<close> goes on to the next content item.\<close>

lemma on_content_failed_call:
  assumes "try_failed (fst (client_callTool rt (wio w) (toolName c) (args c)))"
  shows "foldl (on_content rt model messages) w (ToolCallPart c # rest) =
           foldl (on_content rt model messages)
             (w\<lparr>finalText := finalText w @
                   [''Error calling tool: '' @ toolName c @ '' '' @ args c @ '': ''
                    @ error_text (error (fst (client_callTool rt (wio w) (toolName c) (args c))))],
                wio := snd (client_callTool rt (wio w) (toolName c) (args c))\<rparr>)
             rest"
  using assms by (simp add: case_prod_unfold Let_def)

end
